theory Spec2Isabelle
  imports Main
begin

section \<open>LLVM objects as the analysis observes them\<close>

text \<open>
  The analysis never builds LLVM objects; it only queries them. An LLVM object is
  therefore a record of the answers LLVM gives to the queries that
  \<^verbatim>\<open>MemoryAccessUtils.h\<close> and \<^verbatim>\<open>DefinedMemory.h\<close> make. A failed \<^verbatim>\<open>assert\<close> stops
  the program: it is the \<open>Inl\<close> branch of a result, carrying the assertion's message.
\<close>

datatype Error = AssertionFailed string

text \<open>\<^verbatim>\<open>enum class AccessInfo : uint8_t { No, May, Must }\<close>\<close>

datatype AccessInfo = No | May | Must

text \<open>
  The opcodes that \<^verbatim>\<open>for_each_memory\<close> tells apart; every other opcode takes the
  \<^verbatim>\<open>default\<close> branch of its switch.
\<close>

datatype Opcode =
  Load | VAArg | AtomicRMW | AtomicCmpXchg | Store | Call | Invoke | OtherOpcode nat

text \<open>
  A value is seen through \<^verbatim>\<open>isa<UndefValue>\<close> and \<^verbatim>\<open>dyn_cast<ConstantPointerNull>\<close>
  only; a null pointer constant carries the address space of its type.
\<close>

datatype Value = UndefValue | ConstantPointerNull nat | OtherValue nat

datatype Type = PointerTy | OtherTy

type_synonym Function = nat

type_synonym BasicBlock = nat

type_synonym LibFunc = nat

record MemoryLocation =
  Ptr :: Value
  Size :: nat
  AATags :: nat

text \<open>An actual parameter of a call site; \<^verbatim>\<open>getType()\<close> may be a null pointer.\<close>

record Argument =
  argValue :: Value
  getType :: "Type option"

text \<open>
  One instruction. \<open>InstId\<close> is its identity (its address). The call-site queries
  are meaningful for \<open>Call\<close> and \<open>Invoke\<close> only. \<open>getIntrinsicID\<close> is \<open>Some\<close>
  when \<^verbatim>\<open>dyn_cast<IntrinsicInst>\<close> succeeds, \<open>getCalledFunction\<close> is
  \<^verbatim>\<open>dyn_cast<Function>(CS.getCalledValue()->stripPointerCasts())\<close>, and
  \<open>MemoryLocation_get\<close> is \<^verbatim>\<open>MemoryLocation::get(&I)\<close>.
\<close>

record Instruction =
  InstId :: nat
  getOpcode :: Opcode
  getFunction :: Function
  mayReadFromMemory :: bool
  mayWriteToMemory :: bool
  operands :: "Value list"
  MemoryLocation_get :: MemoryLocation
  getIntrinsicID :: "nat option"
  getCalledFunction :: "Function option"
  doesNotReadMemory :: bool
  onlyReadsMemory :: bool
  onlyAccessesArgMemory :: bool
  args :: "Argument list"

text \<open>\<^verbatim>\<open>Instruction::mayReadOrWriteMemory\<close>, as LLVM defines it inline.\<close>

definition mayReadOrWriteMemory :: "Instruction \<Rightarrow> bool" where
  "mayReadOrWriteMemory I = (mayReadFromMemory I \<or> mayWriteToMemory I)"

text \<open>\<^verbatim>\<open>I.getOperand(i)\<close>; LLVM asserts that the index is in range.\<close>

definition getOperand :: "Instruction \<Rightarrow> nat \<Rightarrow> Value option" where
  "getOperand I i = (if i < length (operands I) then Some (operands I ! i) else None)"

text \<open>
  What \<^verbatim>\<open>for_each_memory\<close> takes from its surroundings. From LLVM:
  \<^verbatim>\<open>NullPointerIsDefined\<close>, \<^verbatim>\<open>TLI.getLibFunc\<close>, \<^verbatim>\<open>MemoryLocation::getForArgument\<close> and
  the instruction range of a function or of a basic block. From
  \<^verbatim>\<open>KnownFunctionTraits.h\<close>, which is not among the sources: \<^verbatim>\<open>isMemoryMarkerIntrinsic\<close>,
  and the argument indexes that \<^verbatim>\<open>foreachIntrinsicMemArg\<close> and
  \<^verbatim>\<open>foreachLibFuncMemArg\<close> pass to their callback, in order. They are parameters:
  nothing is assumed about them.
\<close>

record Env =
  NullPointerIsDefined :: "Function \<Rightarrow> nat \<Rightarrow> bool"
  getLibFunc :: "Function \<Rightarrow> LibFunc option"
  getForArgument :: "Instruction \<Rightarrow> nat \<Rightarrow> MemoryLocation"
  isMemoryMarkerIntrinsic :: "nat \<Rightarrow> bool"
  foreachIntrinsicMemArg :: "Instruction \<Rightarrow> nat list"
  foreachLibFuncMemArg :: "LibFunc \<Rightarrow> nat list"
  inst_range :: "Function \<Rightarrow> Instruction list"
  block_range :: "BasicBlock \<Rightarrow> Instruction list"

section \<open>\<^verbatim>\<open>MemoryAccessUtils.h\<close>: enumerating the accesses of an instruction\<close>

text \<open>
  The two callbacks only consume what they are given, so a run of
  \<^verbatim>\<open>for_each_memory\<close> is the list of callback invocations it makes, in order:
  \<open>Func I Loc OpIdx IsRead IsWrite\<close> and \<open>UnknownFunc I IsRead IsWrite\<close>.
\<close>

datatype Event =
  Func Instruction MemoryLocation nat AccessInfo AccessInfo
| UnknownFunc Instruction AccessInfo AccessInfo

text \<open>The lambda \<^verbatim>\<open>isValidPtr\<close>, which captures \<^verbatim>\<open>F = I.getFunction()\<close>.\<close>

definition isValidPtr :: "Env \<Rightarrow> Function \<Rightarrow> Value \<Rightarrow> bool" where
  "isValidPtr E F P =
     (case P of
        UndefValue \<Rightarrow> False
      | ConstantPointerNull AS \<Rightarrow> (if \<not> NullPointerIsDefined E F AS then False else True)
      | OtherValue v \<Rightarrow> True)"

text \<open>The callback given to \<^verbatim>\<open>foreachIntrinsicMemArg\<close>, for one index.\<close>

definition intrinsicMemArg :: "Env \<Rightarrow> Instruction \<Rightarrow> bool \<Rightarrow> nat \<Rightarrow> Event list" where
  "intrinsicMemArg E CS IsMarker Idx =
     (let Loc = getForArgument E CS Idx in
      if \<not> isValidPtr E (getFunction CS) (Ptr Loc) then []
      else [Func CS Loc Idx
              (if doesNotReadMemory CS \<or> IsMarker then No else May)
              (if onlyReadsMemory CS \<or> IsMarker then No else May)])"

text \<open>The callback given to \<^verbatim>\<open>foreachLibFuncMemArg\<close>, for one index.\<close>

definition libFuncMemArg :: "Env \<Rightarrow> Instruction \<Rightarrow> nat \<Rightarrow> Event list" where
  "libFuncMemArg E CS Idx =
     (let Loc = getForArgument E CS Idx in
      if \<not> isValidPtr E (getFunction CS) (Ptr Loc) then []
      else [Func CS Loc Idx
              (if doesNotReadMemory CS then No else May)
              (if onlyReadsMemory CS then No else May)])"

text \<open>
  The loop \<^verbatim>\<open>for (Idx = 0; Idx < CS.arg_size(); ++Idx)\<close> over the actual parameters
  from index \<open>Idx\<close> on.
\<close>

fun actualParams :: "Env \<Rightarrow> Instruction \<Rightarrow> nat \<Rightarrow> Argument list \<Rightarrow> Error + Event list" where
  "actualParams E CS Idx [] = Inr []"
| "actualParams E CS Idx (A # As) =
     (case getType A of
        None \<Rightarrow> Inl (AssertionFailed ''All actual parameters must be typed!'')
      | Some T \<Rightarrow>
          if T \<noteq> PointerTy then actualParams E CS (Suc Idx) As
          else
            let Loc = getForArgument E CS Idx in
            if \<not> isValidPtr E (getFunction CS) (Ptr Loc) then actualParams E CS (Suc Idx) As
            else
              (case actualParams E CS (Suc Idx) As of
                 Inl e \<Rightarrow> Inl e
               | Inr evs \<Rightarrow>
                   Inr (Func CS Loc Idx
                          (if doesNotReadMemory CS then No else May)
                          (if onlyReadsMemory CS then No else May) # evs)))"

text \<open>The three-way choice of \<^verbatim>\<open>traverseActualParams\<close> before the unknown-memory callback.\<close>

definition knownParams :: "Env \<Rightarrow> Instruction \<Rightarrow> Error + Event list" where
  "knownParams E CS =
     (case getIntrinsicID CS of
        Some IID \<Rightarrow>
          Inr (concat (map (intrinsicMemArg E CS (isMemoryMarkerIntrinsic E IID))
                           (foreachIntrinsicMemArg E CS)))
      | None \<Rightarrow>
          (case (case getCalledFunction CS of None \<Rightarrow> None
                 | Some Callee \<Rightarrow> getLibFunc E Callee) of
             Some LibId \<Rightarrow>
               Inr (concat (map (libFuncMemArg E CS) (foreachLibFuncMemArg E LibId)))
           | None \<Rightarrow> actualParams E CS 0 (args CS)))"

text \<open>The lambda \<^verbatim>\<open>traverseActualParams\<close>.\<close>

definition traverseActualParams :: "Env \<Rightarrow> Instruction \<Rightarrow> Error + Event list" where
  "traverseActualParams E CS =
     (case knownParams E CS of
        Inl e \<Rightarrow> Inl e
      | Inr evs \<Rightarrow>
          Inr (evs @
               (if \<not> onlyAccessesArgMemory CS
                then [UnknownFunc CS
                        (if doesNotReadMemory CS then No else May)
                        (if onlyReadsMemory CS then No else May)]
                else [])))"

text \<open>
  The case \<^verbatim>\<open>Load, VAArg, AtomicRMW, AtomicCmpXchg\<close> of the switch and its case
  \<^verbatim>\<open>Store\<close>; they differ in the operand that has to be the location's pointer.
\<close>

definition loadLike :: "Env \<Rightarrow> Instruction \<Rightarrow> Error + Event list" where
  "loadLike E I =
     (let Loc = MemoryLocation_get I in
      if getOperand I 0 \<noteq> Some (Ptr Loc)
      then Inl (AssertionFailed
             ''Operand with a specified number must be a specified memory location!'')
      else if \<not> isValidPtr E (getFunction I) (Ptr Loc) then Inr []
      else Inr [Func I Loc 0
                  (if mayReadFromMemory I then Must else No)
                  (if mayWriteToMemory I then Must else No)])"

definition storeCase :: "Env \<Rightarrow> Instruction \<Rightarrow> Error + Event list" where
  "storeCase E I =
     (let Loc = MemoryLocation_get I in
      if getOperand I 1 \<noteq> Some (Ptr Loc)
      then Inl (AssertionFailed
             ''Operand with a specified number must be a specified memory location!'')
      else if \<not> isValidPtr E (getFunction I) (Ptr Loc) then Inr []
      else Inr [Func I (MemoryLocation_get I) 1 No Must])"

text \<open>The \<^verbatim>\<open>default\<close> case of the switch.\<close>

definition defaultCase :: "Instruction \<Rightarrow> Error + Event list" where
  "defaultCase I =
     (if \<not> mayReadOrWriteMemory I then Inr []
      else Inr [UnknownFunc I
                  (if mayReadFromMemory I then May else No)
                  (if mayWriteToMemory I then May else No)])"

text \<open>\<^verbatim>\<open>for_each_memory(llvm::Instruction &I, ...)\<close>\<close>

definition for_each_memory :: "Env \<Rightarrow> Instruction \<Rightarrow> Error + Event list" where
  "for_each_memory E I =
     (case getOpcode I of
        Load \<Rightarrow> loadLike E I
      | VAArg \<Rightarrow> loadLike E I
      | AtomicRMW \<Rightarrow> loadLike E I
      | AtomicCmpXchg \<Rightarrow> loadLike E I
      | Store \<Rightarrow> storeCase E I
      | Call \<Rightarrow> traverseActualParams E I
      | Invoke \<Rightarrow> traverseActualParams E I
      | OtherOpcode n \<Rightarrow> defaultCase I)"

text \<open>
  The loop \<^verbatim>\<open>for (auto &I : ...) for_each_memory(I, TLI, Func, UnknownFunc)\<close> that
  the function and the basic-block overloads share; a failed assertion ends it.
\<close>

fun for_each_memory_range :: "Env \<Rightarrow> Instruction list \<Rightarrow> Error + Event list" where
  "for_each_memory_range E [] = Inr []"
| "for_each_memory_range E (I # Is) =
     (case for_each_memory E I of
        Inl e \<Rightarrow> Inl e
      | Inr evs \<Rightarrow>
          (case for_each_memory_range E Is of
             Inl e \<Rightarrow> Inl e
           | Inr evs' \<Rightarrow> Inr (evs @ evs')))"




fun isUnknownFunc :: "Event \<Rightarrow> bool" where
  "isUnknownFunc (Func I Loc Idx R W) = False"
| "isUnknownFunc (UnknownFunc I R W) = True"

text \<open>The flag \<^verbatim>\<open>IsMarker\<close> of \<^verbatim>\<open>traverseActualParams\<close>; only an intrinsic can set it.\<close>

definition IsMarker :: "Env \<Rightarrow> Instruction \<Rightarrow> bool" where
  "IsMarker E CS =
     (case getIntrinsicID CS of None \<Rightarrow> False | Some IID \<Rightarrow> isMemoryMarkerIntrinsic E IID)"



section \<open>\<^verbatim>\<open>tsar_df_location.h\<close>: location sets and data-flow values\<close>

text \<open>
  Modelled from the spec: the class \<^verbatim>\<open>LocationSet\<close> of \<^verbatim>\<open>tsar_df_location.h\<close>, which
  is not among the sources. The spec: "a set of MemoryLocation values, insertion order
  irrelevant".
\<close>

type_synonym LocationSet = "MemoryLocation set"

text \<open>
  Modelled from the spec: \<^verbatim>\<open>LocationSet::contain\<close>, missing with its class. The spec:
  "contains(L) (exact/must membership)".
\<close>

definition contain :: "LocationSet \<Rightarrow> MemoryLocation \<Rightarrow> bool" where
  "contain S L = (L \<in> S)"

text \<open>
  Modelled from the spec: \<^verbatim>\<open>LocationSet::overlap\<close>, missing with its class. The spec:
  "overlap(L) (true if any member may overlap L)", where whether two locations overlap
  is "decided by an external alias-query collaborator": the parameter \<open>mayOverlap\<close>.
\<close>

definition overlap ::
  "(MemoryLocation \<Rightarrow> MemoryLocation \<Rightarrow> bool) \<Rightarrow> LocationSet \<Rightarrow> MemoryLocation \<Rightarrow> bool" where
  "overlap mayOverlap S L = (\<exists>M \<in> S. mayOverlap M L)"

text \<open>
  Modelled from the spec: \<^verbatim>\<open>LocationSet::insert\<close>, missing with its class; the callers
  read \<^verbatim>\<open>.second\<close> of its result. The spec: "insert returns whether the set changed".
\<close>

definition LocationSet_insert :: "LocationSet \<Rightarrow> MemoryLocation \<Rightarrow> LocationSet \<times> bool" where
  "LocationSet_insert S L = (insert L S, insert L S \<noteq> S)"

text \<open>
  Modelled from the spec: the class \<^verbatim>\<open>LocationDFValue\<close> of \<^verbatim>\<open>tsar_df_location.h\<close>,
  which is not among the sources. The spec: "LocationSet-as-lattice-value", with "a
  full-universe top element (conceptually every location is must-defined, an identity
  element for intersection)".
\<close>

type_synonym LocationDFValue = "MemoryLocation set"

text \<open>Modelled from the spec: \<^verbatim>\<open>LocationDFValue::fullValue\<close>, "every location".\<close>

definition fullValue :: LocationDFValue where
  "fullValue = UNIV"

text \<open>Modelled from the spec: \<^verbatim>\<open>LocationDFValue::emptyValue\<close>, "empty".\<close>

definition emptyValue :: LocationDFValue where
  "emptyValue = {}"

text \<open>
  Modelled from the spec: \<^verbatim>\<open>LocationDFValue::intersect\<close>, "intersect(other) (keep only
  members present, conceptually, in both)". The result is the new value of the object
  the method is called on.
\<close>

definition intersect :: "LocationDFValue \<Rightarrow> LocationDFValue \<Rightarrow> LocationDFValue" where
  "intersect this other = this \<inter> other"

text \<open>Modelled from the spec: \<^verbatim>\<open>LocationDFValue::merge\<close>, "merge(other) (union)".\<close>

definition merge :: "LocationDFValue \<Rightarrow> LocationDFValue \<Rightarrow> LocationDFValue" where
  "merge this other = this \<union> other"

section \<open>\<^verbatim>\<open>DefinedMemory.h\<close>: the footprint of a node\<close>

text \<open>
  \<^verbatim>\<open>class DefUseSet\<close>. The alias set tracker is LLVM's; its state is the type
  parameter. The two \<^verbatim>\<open>SmallPtrSet\<close>s are sets of identities.
\<close>

record 'ast DefUseSet =
  mDefs :: LocationSet
  mMayDefs :: LocationSet
  mUses :: LocationSet
  mExplicitAccesses :: 'ast
  mAddressAccesses :: "Value set"
  mUnknownInsts :: "Instruction set"

definition hasDef :: "'ast DefUseSet \<Rightarrow> MemoryLocation \<Rightarrow> bool" where
  "hasDef D Loc = contain (mDefs D) Loc"

text \<open>
  An operation that changes the footprint returns its result and the new footprint.
\<close>

definition addDef :: "'ast DefUseSet \<Rightarrow> MemoryLocation \<Rightarrow> bool \<times> 'ast DefUseSet" where
  "addDef D Loc = (case LocationSet_insert (mDefs D) Loc of (S, second) \<Rightarrow> (second, D\<lparr>mDefs := S\<rparr>))"

text \<open>\<^verbatim>\<open>addDef(llvm::Instruction *I)\<close>; a null pointer is \<open>None\<close>.\<close>

definition addDef_Instruction ::
  "'ast DefUseSet \<Rightarrow> Instruction option \<Rightarrow> Error + bool \<times> 'ast DefUseSet" where
  "addDef_Instruction D I =
     (case I of
        None \<Rightarrow> Inl (AssertionFailed ''Instruction must not be null!'')
      | Some J \<Rightarrow>
          if getOpcode J \<noteq> Store
          then Inl (AssertionFailed ''Only store instructions produce must defined locations!'')
          else Inr (addDef D (MemoryLocation_get J)))"

definition hasMayDef ::
  "(MemoryLocation \<Rightarrow> MemoryLocation \<Rightarrow> bool) \<Rightarrow> 'ast DefUseSet \<Rightarrow> MemoryLocation \<Rightarrow> bool" where
  "hasMayDef mayOverlap D Loc = overlap mayOverlap (mMayDefs D) Loc"

definition addMayDef :: "'ast DefUseSet \<Rightarrow> MemoryLocation \<Rightarrow> bool \<times> 'ast DefUseSet" where
  "addMayDef D Loc =
     (case LocationSet_insert (mMayDefs D) Loc of (S, second) \<Rightarrow> (second, D\<lparr>mMayDefs := S\<rparr>))"

definition addMayDef_Instruction ::
  "'ast DefUseSet \<Rightarrow> Instruction option \<Rightarrow> Error + bool \<times> 'ast DefUseSet" where
  "addMayDef_Instruction D I =
     (case I of
        None \<Rightarrow> Inl (AssertionFailed ''Instruction must not be null!'')
      | Some J \<Rightarrow>
          if \<not> mayWriteToMemory J
          then Inl (AssertionFailed ''Instruction does not modify memory!'')
          else Inr (addMayDef D (MemoryLocation_get J)))"

definition hasUse ::
  "(MemoryLocation \<Rightarrow> MemoryLocation \<Rightarrow> bool) \<Rightarrow> 'ast DefUseSet \<Rightarrow> MemoryLocation \<Rightarrow> bool" where
  "hasUse mayOverlap D Loc = overlap mayOverlap (mUses D) Loc"

definition addUse :: "'ast DefUseSet \<Rightarrow> MemoryLocation \<Rightarrow> bool \<times> 'ast DefUseSet" where
  "addUse D Loc =
     (case LocationSet_insert (mUses D) Loc of (S, second) \<Rightarrow> (second, D\<lparr>mUses := S\<rparr>))"

definition addUse_Instruction ::
  "'ast DefUseSet \<Rightarrow> Instruction option \<Rightarrow> Error + bool \<times> 'ast DefUseSet" where
  "addUse_Instruction D I =
     (case I of
        None \<Rightarrow> Inl (AssertionFailed ''Instruction must not be null!'')
      | Some J \<Rightarrow>
          if \<not> mayReadFromMemory J
          then Inl (AssertionFailed ''Instruction does not read memory!'')
          else Inr (addUse D (MemoryLocation_get J)))"

text \<open>
  \<^verbatim>\<open>addExplicitAccess(llvm::Instruction *I)\<close>. \<open>AST_add\<close> is LLVM's
  \<^verbatim>\<open>AliasSetTracker::add(Instruction *)\<close>: the new tracker and whether a new alias set
  has been created.
\<close>

definition addExplicitAccess_Instruction ::
  "('ast \<Rightarrow> Instruction \<Rightarrow> 'ast \<times> bool) \<Rightarrow> 'ast DefUseSet \<Rightarrow> Instruction option \<Rightarrow>
     Error + bool \<times> 'ast DefUseSet" where
  "addExplicitAccess_Instruction AST_add D I =
     (case I of
        None \<Rightarrow> Inl (AssertionFailed ''Instruction must not be null!'')
      | Some J \<Rightarrow>
          if \<not> mayReadOrWriteMemory J
          then Inl (AssertionFailed ''Instruction does not read nor write memory!'')
          else (case AST_add (mExplicitAccesses D) J of
                  (T, created) \<Rightarrow> Inr (created, D\<lparr>mExplicitAccesses := T\<rparr>)))"

definition hasAddressAccess :: "'ast DefUseSet \<Rightarrow> Value option \<Rightarrow> Error + bool" where
  "hasAddressAccess D P =
     (case P of
        None \<Rightarrow> Inl (AssertionFailed ''Pointer to memory location must not be null!'')
      | Some V \<Rightarrow> Inr (V \<in> mAddressAccesses D))"

text \<open>
  \<^verbatim>\<open>SmallPtrSet::insert(p).second\<close> is true when \<open>p\<close> was inserted, that is when it
  was not in the set.
\<close>

definition addAddressAccess ::
  "'ast DefUseSet \<Rightarrow> Value option \<Rightarrow> Error + bool \<times> 'ast DefUseSet" where
  "addAddressAccess D P =
     (case P of
        None \<Rightarrow> Inl (AssertionFailed ''Pointer to memory location must not be null!'')
      | Some V \<Rightarrow>
          Inr (V \<notin> mAddressAccesses D, D\<lparr>mAddressAccesses := insert V (mAddressAccesses D)\<rparr>))"

definition hasUnknownInst :: "'ast DefUseSet \<Rightarrow> Instruction option \<Rightarrow> Error + bool" where
  "hasUnknownInst D I =
     (case I of
        None \<Rightarrow> Inl (AssertionFailed ''Instruction must not be null!'')
      | Some J \<Rightarrow> Inr (J \<in> mUnknownInsts D))"

definition addUnknownInst ::
  "'ast DefUseSet \<Rightarrow> Instruction option \<Rightarrow> Error + bool \<times> 'ast DefUseSet" where
  "addUnknownInst D I =
     (case I of
        None \<Rightarrow> Inl (AssertionFailed ''Instruction must not be null!'')
      | Some J \<Rightarrow>
          Inr (J \<notin> mUnknownInsts D, D\<lparr>mUnknownInsts := insert J (mUnknownInsts D)\<rparr>))"

section \<open>\<^verbatim>\<open>DefinedMemory.h\<close>: the data-flow framework\<close>

text \<open>\<^verbatim>\<open>struct DefinitionInfo\<close>\<close>

record DefinitionInfo =
  MustReach :: LocationDFValue
  MayReach :: LocationDFValue

text \<open>
  \<^verbatim>\<open>DataFlowTraits<PrivateDFFwk *>\<close>. The framework and the graph are arguments that
  the three functions do not read.
\<close>

definition topElement :: DefinitionInfo where
  "topElement = \<lparr>MustReach = fullValue, MayReach = emptyValue\<rparr>"

definition boundaryCondition :: DefinitionInfo where
  "boundaryCondition = \<lparr>MustReach = emptyValue, MayReach = emptyValue\<rparr>"

text \<open>\<^verbatim>\<open>meetOperator\<close> updates \<open>RHS\<close> in place; the result is its new value.\<close>

definition meetOperator :: "DefinitionInfo \<Rightarrow> DefinitionInfo \<Rightarrow> DefinitionInfo" where
  "meetOperator LHS RHS =
     RHS\<lparr>MustReach := intersect (MustReach RHS) (MustReach LHS),
         MayReach := merge (MayReach RHS) (MayReach LHS)\<rparr>"

section \<open>Concrete inputs\<close>

text \<open>
  An environment in which a null pointer is defined in every address space but 0, no
  callee is a library function and the location of an actual parameter has that
  parameter as its pointer; and instructions as LLVM describes them: a load through
  \<^verbatim>\<open>undef\<close>, a store and an \<^verbatim>\<open>atomicrmw\<close> through a pointer, a call of an
  unknown function with one pointer argument, a call of a memory marker intrinsic, two
  calls that only access the memory of their arguments, one without and one with a
  pointer argument, a fence, and an addition.
\<close>

definition loc_x :: MemoryLocation where
  "loc_x = \<lparr>Ptr = OtherValue 1, Size = 4, AATags = 0\<rparr>"

definition P1_ex :: DefinitionInfo where
  "P1_ex = \<lparr>MustReach = {loc_x}, MayReach = {loc_x}\<rparr>"

definition P2_ex :: DefinitionInfo where
  "P2_ex = \<lparr>MustReach = {}, MayReach = {}\<rparr>"

definition Env_ex :: Env where
  "Env_ex =
     \<lparr>NullPointerIsDefined = (\<lambda>F AS. AS \<noteq> 0),
      getLibFunc = (\<lambda>F. None),
      getForArgument =
        (\<lambda>CS Idx. \<lparr>Ptr = (if Idx < length (args CS) then argValue (args CS ! Idx)
                              else UndefValue),
                      Size = 0, AATags = 0\<rparr>),
      isMemoryMarkerIntrinsic = (\<lambda>IID. IID = 1),
      foreachIntrinsicMemArg = (\<lambda>CS. [1]),
      foreachLibFuncMemArg = (\<lambda>LibId. [0]),
      inst_range = (\<lambda>F. []),
      block_range = (\<lambda>BB. [])\<rparr>"

definition no_loc :: MemoryLocation where
  "no_loc = \<lparr>Ptr = UndefValue, Size = 0, AATags = 0\<rparr>"


definition store_p :: Instruction where
  "store_p =
     \<lparr>InstId = 3, getOpcode = Store, getFunction = 0,
      mayReadFromMemory = False, mayWriteToMemory = True,
      operands = [OtherValue 8, OtherValue 7],
      MemoryLocation_get = \<lparr>Ptr = OtherValue 7, Size = 4, AATags = 0\<rparr>,
      getIntrinsicID = None, getCalledFunction = None,
      doesNotReadMemory = False, onlyReadsMemory = False, onlyAccessesArgMemory = False,
      args = []\<rparr>"

definition atomicrmw_p :: Instruction where
  "atomicrmw_p =
     \<lparr>InstId = 4, getOpcode = AtomicRMW, getFunction = 0,
      mayReadFromMemory = True, mayWriteToMemory = True,
      operands = [OtherValue 7, OtherValue 8],
      MemoryLocation_get = \<lparr>Ptr = OtherValue 7, Size = 4, AATags = 0\<rparr>,
      getIntrinsicID = None, getCalledFunction = None,
      doesNotReadMemory = False, onlyReadsMemory = False, onlyAccessesArgMemory = False,
      args = []\<rparr>"

definition call_f :: Instruction where
  "call_f =
     \<lparr>InstId = 5, getOpcode = Call, getFunction = 0,
      mayReadFromMemory = True, mayWriteToMemory = True,
      operands = [OtherValue 8, OtherValue 7, OtherValue 9],
      MemoryLocation_get = no_loc,
      getIntrinsicID = None, getCalledFunction = Some 9,
      doesNotReadMemory = False, onlyReadsMemory = False, onlyAccessesArgMemory = False,
      args = [\<lparr>argValue = OtherValue 8, getType = Some OtherTy\<rparr>,
              \<lparr>argValue = OtherValue 7, getType = Some PointerTy\<rparr>]\<rparr>"

definition call_marker :: Instruction where
  "call_marker =
     \<lparr>InstId = 8, getOpcode = Call, getFunction = 0,
      mayReadFromMemory = True, mayWriteToMemory = True,
      operands = [OtherValue 8, OtherValue 7, OtherValue 10],
      MemoryLocation_get = no_loc,
      getIntrinsicID = Some 1, getCalledFunction = Some 10,
      doesNotReadMemory = False, onlyReadsMemory = False, onlyAccessesArgMemory = True,
      args = [\<lparr>argValue = OtherValue 8, getType = Some OtherTy\<rparr>,
              \<lparr>argValue = OtherValue 7, getType = Some PointerTy\<rparr>]\<rparr>"

definition fence_i :: Instruction where
  "fence_i =
     \<lparr>InstId = 6, getOpcode = OtherOpcode 0, getFunction = 0,
      mayReadFromMemory = True, mayWriteToMemory = True,
      operands = [],
      MemoryLocation_get = no_loc,
      getIntrinsicID = None, getCalledFunction = None,
      doesNotReadMemory = False, onlyReadsMemory = False, onlyAccessesArgMemory = False,
      args = []\<rparr>"

definition add_i :: Instruction where
  "add_i =
     \<lparr>InstId = 7, getOpcode = OtherOpcode 1, getFunction = 0,
      mayReadFromMemory = False, mayWriteToMemory = False,
      operands = [OtherValue 8, OtherValue 9],
      MemoryLocation_get = no_loc,
      getIntrinsicID = None, getCalledFunction = None,
      doesNotReadMemory = False, onlyReadsMemory = False, onlyAccessesArgMemory = False,
      args = []\<rparr>"





definition loc_p4 :: MemoryLocation where
  "loc_p4 = \<lparr>Ptr = OtherValue 7, Size = 4, AATags = 0\<rparr>"

definition loc_p2 :: MemoryLocation where
  "loc_p2 = \<lparr>Ptr = OtherValue 7, Size = 2, AATags = 0\<rparr>"

definition samePtr :: "MemoryLocation \<Rightarrow> MemoryLocation \<Rightarrow> bool" where
  "samePtr M L = (Ptr M = Ptr L)"

definition DU_p4 :: "unit DefUseSet" where
  "DU_p4 =
     \<lparr>mDefs = {loc_p4}, mMayDefs = {loc_p4}, mUses = {loc_p4}, mExplicitAccesses = (),
      mAddressAccesses = {}, mUnknownInsts = {}\<rparr>"

definition AST_unit :: "unit \<Rightarrow> Instruction \<Rightarrow> unit \<times> bool" where
  "AST_unit T I = ((), True)"

definition DU_empty :: "unit DefUseSet" where
  "DU_empty =
     \<lparr>mDefs = {}, mMayDefs = {}, mUses = {}, mExplicitAccesses = (),
      mAddressAccesses = {}, mUnknownInsts = {}\<rparr>"

section \<open>What one instruction fires\<close>

lemma intrinsicMemArg_event:
  "e \<in> set (intrinsicMemArg E CS M Idx) \<Longrightarrow>
   e = Func CS (getForArgument E CS Idx) Idx
         (if doesNotReadMemory CS \<or> M then No else May)
         (if onlyReadsMemory CS \<or> M then No else May)"
  by (simp add: intrinsicMemArg_def Let_def split: if_splits)

lemma libFuncMemArg_event:
  "e \<in> set (libFuncMemArg E CS Idx) \<Longrightarrow>
   e = Func CS (getForArgument E CS Idx) Idx
         (if doesNotReadMemory CS then No else May)
         (if onlyReadsMemory CS then No else May)"
  by (simp add: libFuncMemArg_def Let_def split: if_splits)

lemma actualParams_event:
  "actualParams E CS Idx As = Inr evs \<Longrightarrow> e \<in> set evs \<Longrightarrow>
   \<exists>k. e = Func CS (getForArgument E CS k) k
         (if doesNotReadMemory CS then No else May)
         (if onlyReadsMemory CS then No else May)"
proof (induction As arbitrary: Idx evs)
  case Nil
  then show ?case by simp
next
  case (Cons A As)
  then show ?case
    by (auto simp: Let_def split: option.splits if_splits sum.splits)
qed

lemma actualParams_typed:
  "\<forall>A \<in> set As. getType A \<noteq> None \<Longrightarrow> \<exists>evs. actualParams E CS Idx As = Inr evs"
proof (induction As arbitrary: Idx)
  case Nil
  then show ?case by simp
next
  case (Cons A As)
  then obtain T where T: "getType A = Some T" by auto
  from Cons obtain evs where "actualParams E CS (Suc Idx) As = Inr evs" by fastforce
  with T show ?case by (simp add: Let_def)
qed

lemma knownParams_event:
  assumes "knownParams E CS = Inr evs" and "e \<in> set evs"
  shows "\<exists>k. e = Func CS (getForArgument E CS k) k
           (if doesNotReadMemory CS \<or> IsMarker E CS then No else May)
           (if onlyReadsMemory CS \<or> IsMarker E CS then No else May)"
proof (cases "getIntrinsicID CS")
  case (Some IID)
  with assms obtain k where "e \<in> set (intrinsicMemArg E CS (isMemoryMarkerIntrinsic E IID) k)"
    by (auto simp: knownParams_def)
  from intrinsicMemArg_event [OF this] Some show ?thesis
    by (auto simp: IsMarker_def)
next
  case None
  then have M: "IsMarker E CS = False" by (simp add: IsMarker_def)
  show ?thesis
  proof (cases "case getCalledFunction CS of None \<Rightarrow> None | Some Callee \<Rightarrow> getLibFunc E Callee")
    case (Some LibId)
    with assms None obtain k where "e \<in> set (libFuncMemArg E CS k)"
      by (auto simp: knownParams_def)
    from libFuncMemArg_event [OF this] M show ?thesis by auto
  next
    case N2: None
    with assms None have "actualParams E CS 0 (args CS) = Inr evs"
      by (simp add: knownParams_def)
    from actualParams_event [OF this assms(2)] M show ?thesis by simp
  qed
qed

lemma knownParams_typed:
  "\<forall>A \<in> set (args CS). getType A \<noteq> None \<Longrightarrow> \<exists>evs. knownParams E CS = Inr evs"
  using actualParams_typed [of "args CS" E CS 0]
  by (auto simp: knownParams_def split: option.splits)

lemma traverseActualParams_Inr:
  "traverseActualParams E CS = Inr evs \<Longrightarrow>
   \<exists>ks. knownParams E CS = Inr ks \<and>
        evs = ks @ (if \<not> onlyAccessesArgMemory CS
                    then [UnknownFunc CS
                            (if doesNotReadMemory CS then No else May)
                            (if onlyReadsMemory CS then No else May)]
                    else [])"
  by (auto simp: traverseActualParams_def split: sum.splits)

lemma knownParams_no_unknown:
  "knownParams E CS = Inr ks \<Longrightarrow> filter isUnknownFunc ks = []"
proof -
  assume a: "knownParams E CS = Inr ks"
  have "\<forall>e \<in> set ks. \<not> isUnknownFunc e"
  proof
    fix e assume "e \<in> set ks"
    from knownParams_event [OF a this] show "\<not> isUnknownFunc e" by auto
  qed
  then show ?thesis by (simp add: filter_empty_conv)
qed

lemma loadLike_Inr:
  "loadLike E I = Inr evs \<Longrightarrow>
   evs = (if isValidPtr E (getFunction I) (Ptr (MemoryLocation_get I))
          then [Func I (MemoryLocation_get I) 0
                  (if mayReadFromMemory I then Must else No)
                  (if mayWriteToMemory I then Must else No)]
          else [])"
  by (simp add: loadLike_def Let_def split: if_splits)

lemma storeCase_Inr:
  "storeCase E I = Inr evs \<Longrightarrow>
   evs = (if isValidPtr E (getFunction I) (Ptr (MemoryLocation_get I))
          then [Func I (MemoryLocation_get I) 1 No Must]
          else [])"
  by (simp add: storeCase_def Let_def split: if_splits)

lemma defaultCase_Inr:
  "defaultCase I = Inr evs \<Longrightarrow>
   evs = (if mayReadOrWriteMemory I
          then [UnknownFunc I (if mayReadFromMemory I then May else No)
                              (if mayWriteToMemory I then May else No)]
          else [])"
  by (auto simp: defaultCase_def split: if_splits)

lemma traverseActualParams_unknown:
  assumes "traverseActualParams E CS = Inr evs"
  shows "filter isUnknownFunc evs =
           (if \<not> onlyAccessesArgMemory CS
            then [UnknownFunc CS (if doesNotReadMemory CS then No else May)
                                 (if onlyReadsMemory CS then No else May)]
            else [])"
proof -
  from traverseActualParams_Inr [OF assms] obtain ks where
    ks: "knownParams E CS = Inr ks" and
    evs: "evs = ks @ (if \<not> onlyAccessesArgMemory CS
                    then [UnknownFunc CS
                            (if doesNotReadMemory CS then No else May)
                            (if onlyReadsMemory CS then No else May)]
                    else [])" by blast
  from knownParams_no_unknown [OF ks] show ?thesis
    unfolding evs by simp
qed

lemma traverseActualParams_Func:
  assumes "traverseActualParams E CS = Inr evs" and "Func J Loc Idx R W \<in> set evs"
  shows "J = CS \<and> Loc = getForArgument E CS Idx \<and>
         R = (if doesNotReadMemory CS \<or> IsMarker E CS then No else May) \<and>
         W = (if onlyReadsMemory CS \<or> IsMarker E CS then No else May)"
proof -
  from traverseActualParams_Inr [OF assms(1)] obtain ks where
    ks: "knownParams E CS = Inr ks" and
    evs: "set evs \<subseteq> set ks \<union> {UnknownFunc CS
                            (if doesNotReadMemory CS then No else May)
                            (if onlyReadsMemory CS then No else May)}"
    by (auto split: if_splits)
  from evs assms(2) have "Func J Loc Idx R W \<in> set ks" by auto
  from knownParams_event [OF ks this] show ?thesis by simp
qed

lemma for_each_memory_call:
  "getOpcode I = Call \<or> getOpcode I = Invoke \<Longrightarrow>
   for_each_memory E I = traverseActualParams E I"
  by (auto simp: for_each_memory_def)

lemma for_each_memory_default:
  "getOpcode I = OtherOpcode n \<Longrightarrow> for_each_memory E I = defaultCase I"
  by (simp add: for_each_memory_def)

lemma Opcode_kinds:
  obtains (LoadLike) "getOpcode I \<in> {Load, VAArg, AtomicRMW, AtomicCmpXchg}"
      "for_each_memory E I = loadLike E I"
      "getOpcode I \<noteq> Store" "getOpcode I \<noteq> Call" "getOpcode I \<noteq> Invoke"
  | (StoreKind) "getOpcode I = Store" "for_each_memory E I = storeCase E I"
  | (CallKind) "getOpcode I = Call \<or> getOpcode I = Invoke"
      "for_each_memory E I = traverseActualParams E I"
      "getOpcode I \<notin> {Load, VAArg, AtomicRMW, AtomicCmpXchg, Store}"
  | (DefaultKind) n where "getOpcode I = OtherOpcode n" "for_each_memory E I = defaultCase I"
  by (cases "getOpcode I") (auto simp: for_each_memory_def)







lemma for_each_memory_unknown:
  assumes "for_each_memory E I = Inr evs"
  shows "filter isUnknownFunc evs =
     (if getOpcode I = Call \<or> getOpcode I = Invoke
      then (if \<not> onlyAccessesArgMemory I
            then [UnknownFunc I (if doesNotReadMemory I then No else May)
                                (if onlyReadsMemory I then No else May)]
            else [])
      else if getOpcode I \<in> {Load, VAArg, AtomicRMW, AtomicCmpXchg, Store} then []
      else if mayReadOrWriteMemory I
           then [UnknownFunc I (if mayReadFromMemory I then May else No)
                               (if mayWriteToMemory I then May else No)]
           else [])"
proof (cases rule: Opcode_kinds [of I E])
  case LoadLike
  from loadLike_Inr [of E I evs] assms LoadLike(2)
  have "filter isUnknownFunc evs = []" by simp
  with LoadLike show ?thesis by simp
next
  case StoreKind
  from storeCase_Inr [of E I evs] assms StoreKind(2)
  have "filter isUnknownFunc evs = []" by simp
  with StoreKind show ?thesis by simp
next
  case CallKind
  from traverseActualParams_unknown [of E I evs] assms CallKind(2)
  show ?thesis using CallKind(1) by simp
next
  case (DefaultKind n)
  from defaultCase_Inr [of I evs] assms DefaultKind(2)
  have "evs = (if mayReadOrWriteMemory I
          then [UnknownFunc I (if mayReadFromMemory I then May else No)
                              (if mayWriteToMemory I then May else No)]
          else [])" by simp
  then have "filter isUnknownFunc evs = evs" by simp
  with \<open>evs = _\<close> DefaultKind(1) show ?thesis by simp
qed

lemma for_each_memory_unknown_event:
  assumes "for_each_memory E I = Inr evs" and "UnknownFunc J R W \<in> set evs"
  shows "J = I \<and> R \<noteq> Must \<and> W \<noteq> Must"
proof -
  from assms(2) have "UnknownFunc J R W \<in> set (filter isUnknownFunc evs)" by simp
  then show ?thesis
    unfolding for_each_memory_unknown [OF assms(1)]
    by (simp split: if_splits)
qed

lemma for_each_memory_Func_event:
  assumes "for_each_memory E I = Inr evs" and "Func J Loc Idx R W \<in> set evs"
  shows "J = I \<and>
     (if getOpcode I = Call \<or> getOpcode I = Invoke
      then Loc = getForArgument E I Idx \<and>
           R = (if doesNotReadMemory I \<or> IsMarker E I then No else May) \<and>
           W = (if onlyReadsMemory I \<or> IsMarker E I then No else May)
      else if getOpcode I = Store
      then Loc = MemoryLocation_get I \<and> Idx = 1 \<and> R = No \<and> W = Must
      else getOpcode I \<in> {Load, VAArg, AtomicRMW, AtomicCmpXchg} \<and>
           Loc = MemoryLocation_get I \<and> Idx = 0 \<and>
           R = (if mayReadFromMemory I then Must else No) \<and>
           W = (if mayWriteToMemory I then Must else No))"
proof (cases rule: Opcode_kinds [of I E])
  case LoadLike
  from loadLike_Inr [of E I evs] assms LoadLike(2)
  have "Func J Loc Idx R W = Func I (MemoryLocation_get I) 0
                  (if mayReadFromMemory I then Must else No)
                  (if mayWriteToMemory I then Must else No)"
    by (simp split: if_splits)
  with LoadLike show ?thesis by simp
next
  case StoreKind
  from storeCase_Inr [of E I evs] assms StoreKind(2)
  have "Func J Loc Idx R W = Func I (MemoryLocation_get I) 1 No Must"
    by (simp split: if_splits)
  with StoreKind show ?thesis by simp
next
  case CallKind
  from traverseActualParams_Func [of E I evs J Loc Idx R W] assms CallKind(2)
  show ?thesis using CallKind(1) by simp
next
  case (DefaultKind n)
  from defaultCase_Inr [of I evs] assms(1) DefaultKind(2)
  have "filter (\<lambda>e. \<not> isUnknownFunc e) evs = []" by simp
  with assms(2) have False by (auto simp: filter_empty_conv)
  then show ?thesis ..
qed

lemma for_each_memory_range_events:
  "for_each_memory_range E Is = Inr evs \<Longrightarrow> e \<in> set evs \<Longrightarrow>
   \<exists>I \<in> set Is. \<exists>evsI. for_each_memory E I = Inr evsI \<and> e \<in> set evsI"
proof (induction Is arbitrary: evs)
  case Nil
  then show ?case by simp
next
  case (Cons I Is)
  then show ?case
    by (fastforce split: sum.splits)
qed


lemma LocationSet_insert_second:
  "LocationSet_insert S L = (insert L S, L \<notin> S)"
  by (auto simp: LocationSet_insert_def)

section \<open>The claims\<close>

text \<open>
  Claim C1. The meet operator replaces the \<open>MustReach\<close> of the accumulating value
  \<open>RHS\<close> by its intersection with the \<open>MustReach\<close> of \<open>LHS\<close>, and the
  \<open>MayReach\<close> of \<open>RHS\<close> by its union with the \<open>MayReach\<close> of \<open>LHS\<close>. So when
  a predecessor \<open>P2\<close> has an empty \<open>MustReach\<close>, no location \<open>x\<close> is in the
  \<open>MustReach\<close> of the met value, whatever the \<open>MustReach\<close> of the other predecessor
  \<open>P1\<close> holds, in whichever order the two are met and whatever the accumulator
  \<open>Acc\<close> started from; and \<open>x\<close> is in the \<open>MayReach\<close> of the met value as soon as
  it is in the \<open>MayReach\<close> of \<open>P1\<close> or of \<open>P2\<close>.
\<close>

theorem meetOperator_intersects_merges:
  "MustReach (meetOperator LHS RHS) = MustReach RHS \<inter> MustReach LHS \<and>
   MayReach (meetOperator LHS RHS) = MayReach RHS \<union> MayReach LHS \<and>
   (MustReach P2 = {} \<longrightarrow>
      x \<notin> MustReach (meetOperator P1 P2) \<and>
      x \<notin> MustReach (meetOperator P2 P1) \<and>
      x \<notin> MustReach (meetOperator P2 (meetOperator P1 Acc)) \<and>
      x \<notin> MustReach (meetOperator P1 (meetOperator P2 Acc))) \<and>
   (x \<in> MayReach P1 \<or> x \<in> MayReach P2 \<longrightarrow>
      x \<in> MayReach (meetOperator P1 P2) \<and>
      x \<in> MayReach (meetOperator P2 P1) \<and>
      x \<in> MayReach (meetOperator P2 (meetOperator P1 Acc)) \<and>
      x \<in> MayReach (meetOperator P1 (meetOperator P2 Acc)))"
  by (auto simp: meetOperator_def intersect_def merge_def)

theorem meetOperator_intersects_merges_witness:
  "loc_x \<in> MustReach P1_ex \<and> MustReach P2_ex = {} \<and>
   loc_x \<notin> MustReach (meetOperator P2_ex (meetOperator P1_ex topElement)) \<and>
   loc_x \<in> MayReach (meetOperator P2_ex (meetOperator P1_ex topElement))"
  using meetOperator_intersects_merges [of P1_ex P2_ex P2_ex loc_x P1_ex topElement]
  by (simp add: P1_ex_def P2_ex_def)

text \<open>
  Claim C2. The top element has every location in \<open>MustReach\<close> and none in
  \<open>MayReach\<close>; its \<open>MustReach\<close> is an identity of \<open>intersect\<close> on both sides, so
  meeting a value into the top element gives that value; the boundary condition has
  no location in \<open>MustReach\<close> and none in \<open>MayReach\<close>.
\<close>

theorem topElement_boundaryCondition_values:
  "MustReach topElement = UNIV \<and> MayReach topElement = {} \<and>
   intersect (MustReach topElement) S = S \<and> intersect S (MustReach topElement) = S \<and>
   MustReach (meetOperator V topElement) = MustReach V \<and>
   MayReach (meetOperator V topElement) = MayReach V \<and>
   MustReach boundaryCondition = {} \<and> MayReach boundaryCondition = {}"
  by (simp add: topElement_def boundaryCondition_def fullValue_def emptyValue_def
      intersect_def meetOperator_def merge_def)




text \<open>
  Claim C4. Every invocation of \<open>Func\<close> that a call or an invoke \<open>I\<close> makes is for
  \<open>I\<close> and for the location of one of its actual parameters. Its read assurance is
  \<open>No\<close> when the call does not read memory or the intrinsic is a memory marker, and
  \<open>May\<close> otherwise; its write assurance is \<open>No\<close> when the call only reads memory or
  the intrinsic is a memory marker, and \<open>May\<close> otherwise; neither is ever
  \<open>Must\<close>.
\<close>

theorem call_argument_assurance_at_most_May:
  assumes "getOpcode I = Call \<or> getOpcode I = Invoke"
    and "for_each_memory E I = Inr evs"
    and "Func J Loc Idx R W \<in> set evs"
  shows "J = I \<and> Loc = getForArgument E I Idx \<and>
         R = (if doesNotReadMemory I \<or> IsMarker E I then No else May) \<and>
         W = (if onlyReadsMemory I \<or> IsMarker E I then No else May) \<and>
         R \<noteq> Must \<and> W \<noteq> Must"
  using for_each_memory_Func_event [OF assms(2,3)] assms(1) by simp

theorem call_argument_assurance_at_most_May_witness:
  "getOpcode call_f = Call \<and>
   for_each_memory Env_ex call_f =
     Inr [Func call_f (getForArgument Env_ex call_f 1) 1 May May, UnknownFunc call_f May May] \<and>
   \<not> doesNotReadMemory call_f \<and> \<not> onlyReadsMemory call_f \<and> \<not> IsMarker Env_ex call_f \<and>
   getOpcode call_marker = Call \<and>
   for_each_memory Env_ex call_marker =
     Inr [Func call_marker (getForArgument Env_ex call_marker 1) 1 No No] \<and>
   IsMarker Env_ex call_marker"
  using call_argument_assurance_at_most_May [where I = call_f and E = Env_ex and J = call_f
      and Loc = "getForArgument Env_ex call_f 1" and Idx = 1 and R = May and W = May
      and evs = "[Func call_f (getForArgument Env_ex call_f 1) 1 May May,
                  UnknownFunc call_f May May]"]
    call_argument_assurance_at_most_May [where I = call_marker and E = Env_ex
      and J = call_marker and Loc = "getForArgument Env_ex call_marker 1" and Idx = 1
      and R = No and W = No
      and evs = "[Func call_marker (getForArgument Env_ex call_marker 1) 1 No No]"]
  by (simp add: Env_ex_def IsMarker_def for_each_memory_def call_f_def call_marker_def
      traverseActualParams_def knownParams_def intrinsicMemArg_def isValidPtr_def Let_def)

text \<open>
  Claim C5. For a call or an invoke, a run that returns has fired \<open>UnknownFunc\<close>
  exactly once if the call may access memory other than that of its arguments and not
  at all otherwise, with read assurance \<open>No\<close> if the call does not read memory and
  \<open>May\<close> if it may, and write assurance \<open>No\<close> if it only reads memory and \<open>May\<close>
  if not; and the run returns when every actual parameter is typed. For an opcode of
  the default case the run always returns, and has fired \<open>UnknownFunc\<close> exactly once
  and nothing else if the instruction may read or write memory, and nothing if not.
  For a load, a \<^verbatim>\<open>va_arg\<close>, an atomic instruction and a store \<open>UnknownFunc\<close> is not
  fired.
\<close>

theorem UnknownFunc_once_per_unresolved_instruction:
  "(getOpcode I = Call \<or> getOpcode I = Invoke \<longrightarrow>
      (for_each_memory E I = Inr evs \<longrightarrow>
         filter isUnknownFunc evs =
           (if \<not> onlyAccessesArgMemory I
            then [UnknownFunc I (if doesNotReadMemory I then No else May)
                                (if onlyReadsMemory I then No else May)]
            else [])) \<and>
      ((\<forall>A \<in> set (args I). getType A \<noteq> None) \<longrightarrow> (\<exists>evs'. for_each_memory E I = Inr evs'))) \<and>
   (getOpcode I = OtherOpcode n \<longrightarrow>
      for_each_memory E I =
        Inr (if mayReadOrWriteMemory I
             then [UnknownFunc I (if mayReadFromMemory I then May else No)
                                 (if mayWriteToMemory I then May else No)]
             else [])) \<and>
   (getOpcode I \<in> {Load, VAArg, AtomicRMW, AtomicCmpXchg, Store} \<longrightarrow>
      for_each_memory E I = Inr evs \<longrightarrow> filter isUnknownFunc evs = [])"
proof (intro conjI impI)
  assume "getOpcode I = Call \<or> getOpcode I = Invoke" and "for_each_memory E I = Inr evs"
  then show "filter isUnknownFunc evs =
           (if \<not> onlyAccessesArgMemory I
            then [UnknownFunc I (if doesNotReadMemory I then No else May)
                                (if onlyReadsMemory I then No else May)]
            else [])"
    using for_each_memory_unknown [of E I evs] by simp
next
  assume c: "getOpcode I = Call \<or> getOpcode I = Invoke"
    and "\<forall>A \<in> set (args I). getType A \<noteq> None"
  from knownParams_typed [OF this(2), of E] obtain ks where "knownParams E I = Inr ks" ..
  with c show "\<exists>evs'. for_each_memory E I = Inr evs'"
    by (simp add: for_each_memory_call traverseActualParams_def)
next
  assume "getOpcode I = OtherOpcode n"
  then show "for_each_memory E I =
        Inr (if mayReadOrWriteMemory I
             then [UnknownFunc I (if mayReadFromMemory I then May else No)
                                 (if mayWriteToMemory I then May else No)]
             else [])"
    by (simp add: for_each_memory_default defaultCase_def)
next
  assume "getOpcode I \<in> {Load, VAArg, AtomicRMW, AtomicCmpXchg, Store}"
    and "for_each_memory E I = Inr evs"
  then show "filter isUnknownFunc evs = []"
    using for_each_memory_unknown [of E I evs] by auto
qed

theorem UnknownFunc_once_per_unresolved_instruction_witness:
  "getOpcode call_f = Call \<and> map getType (args call_f) = [Some OtherTy, Some PointerTy] \<and>
   \<not> onlyAccessesArgMemory call_f \<and>
   for_each_memory Env_ex call_f =
     Inr [Func call_f (getForArgument Env_ex call_f 1) 1 May May, UnknownFunc call_f May May] \<and>
   getOpcode fence_i = OtherOpcode 0 \<and> mayReadOrWriteMemory fence_i \<and>
   for_each_memory Env_ex fence_i = Inr [UnknownFunc fence_i May May] \<and>
   getOpcode store_p = Store \<and>
   for_each_memory Env_ex store_p = Inr [Func store_p (MemoryLocation_get store_p) 1 No Must]"
  using UnknownFunc_once_per_unresolved_instruction [where I = call_f and E = Env_ex and n = 0
      and evs = "[Func call_f (getForArgument Env_ex call_f 1) 1 May May,
                  UnknownFunc call_f May May]"]
    UnknownFunc_once_per_unresolved_instruction [where I = fence_i and E = Env_ex and n = 0
      and evs = "[]"]
    UnknownFunc_once_per_unresolved_instruction [where I = store_p and E = Env_ex and n = 0
      and evs = "[Func store_p (MemoryLocation_get store_p) 1 No Must]"]
  by (simp add: Env_ex_def mayReadOrWriteMemory_def
      for_each_memory_def call_f_def fence_i_def store_p_def storeCase_def getOperand_def
      traverseActualParams_def knownParams_def isValidPtr_def defaultCase_def Let_def)

text \<open>
  Claim C6. \<open>hasDef\<close> is exact membership in the must-defined set and takes no
  overlap relation. \<open>hasMayDef\<close> and \<open>hasUse\<close> hold exactly when some member of
  their set overlaps the location, so they are true whenever any member \<open>M\<close> overlaps
  it, also when \<open>M\<close> covers a part of it only.
\<close>

theorem membership_queries_precision:
  "hasDef D Loc = (Loc \<in> mDefs D) \<and>
   hasMayDef mayOverlap D Loc = (\<exists>M \<in> mMayDefs D. mayOverlap M Loc) \<and>
   hasUse mayOverlap D Loc = (\<exists>M \<in> mUses D. mayOverlap M Loc) \<and>
   (M \<in> mMayDefs D \<and> mayOverlap M Loc \<longrightarrow> hasMayDef mayOverlap D Loc) \<and>
   (M \<in> mUses D \<and> mayOverlap M Loc \<longrightarrow> hasUse mayOverlap D Loc)"
  by (auto simp: hasDef_def hasMayDef_def hasUse_def contain_def overlap_def)

theorem membership_queries_precision_witness:
  "loc_p4 \<in> mMayDefs DU_p4 \<and> samePtr loc_p4 loc_p2 \<and> loc_p4 \<in> mUses DU_p4 \<and>
   loc_p2 \<notin> mDefs DU_p4 \<and>
   \<not> hasDef DU_p4 loc_p2 \<and> hasMayDef samePtr DU_p4 loc_p2 \<and> hasUse samePtr DU_p4 loc_p2 \<and>
   hasDef DU_p4 loc_p4"
  using membership_queries_precision [where D = DU_p4 and Loc = loc_p2 and M = loc_p4
      and mayOverlap = samePtr]
    membership_queries_precision [where D = DU_p4 and Loc = loc_p4 and M = loc_p4
      and mayOverlap = samePtr]
  by (simp add: DU_p4_def loc_p4_def loc_p2_def samePtr_def)

text \<open>
  Claim C7. Each of \<open>addDef\<close>, \<open>addMayDef\<close>, \<open>addUse\<close>, \<open>addAddressAccess\<close> and
  \<open>addUnknownInst\<close> returns true exactly when the element was not in its set, which
  is exactly when the footprint changed; inserting the same element once more returns
  false and leaves the footprint as it is.
\<close>

theorem insertion_returns_whether_changed:
  "fst (addDef D L) = (L \<notin> mDefs D) \<and>
   fst (addDef D L) = (snd (addDef D L) \<noteq> D) \<and>
   addDef (snd (addDef D L)) L = (False, snd (addDef D L)) \<and>
   fst (addMayDef D L) = (L \<notin> mMayDefs D) \<and>
   fst (addMayDef D L) = (snd (addMayDef D L) \<noteq> D) \<and>
   addMayDef (snd (addMayDef D L)) L = (False, snd (addMayDef D L)) \<and>
   fst (addUse D L) = (L \<notin> mUses D) \<and>
   fst (addUse D L) = (snd (addUse D L) \<noteq> D) \<and>
   addUse (snd (addUse D L)) L = (False, snd (addUse D L)) \<and>
   (\<exists>b D'. addAddressAccess D (Some P) = Inr (b, D') \<and>
      b = (P \<notin> mAddressAccesses D) \<and> b = (D' \<noteq> D) \<and>
      addAddressAccess D' (Some P) = Inr (False, D')) \<and>
   (\<exists>b D'. addUnknownInst D (Some I) = Inr (b, D') \<and>
      b = (I \<notin> mUnknownInsts D) \<and> b = (D' \<noteq> D) \<and>
      addUnknownInst D' (Some I) = Inr (False, D'))"
proof -
  have upd: "\<And>S. (D\<lparr>mDefs := S\<rparr> \<noteq> D) = (S \<noteq> mDefs D)"
    "\<And>S. (D\<lparr>mMayDefs := S\<rparr> \<noteq> D) = (S \<noteq> mMayDefs D)"
    "\<And>S. (D\<lparr>mUses := S\<rparr> \<noteq> D) = (S \<noteq> mUses D)"
    "\<And>S. (D\<lparr>mAddressAccesses := S\<rparr> \<noteq> D) = (S \<noteq> mAddressAccesses D)"
    "\<And>S. (D\<lparr>mUnknownInsts := S\<rparr> \<noteq> D) = (S \<noteq> mUnknownInsts D)"
    by (cases D; auto)+
  have ins: "\<And>(x::'b) S. (insert x S \<noteq> S) = (x \<notin> S)" "\<And>(x::'c) S. (insert x S \<noteq> S) = (x \<notin> S)"
    "\<And>(x::'d) S. (insert x S \<noteq> S) = (x \<notin> S)"
    by auto
  show ?thesis
    by (simp add: addDef_def addMayDef_def addUse_def addAddressAccess_def addUnknownInst_def
        LocationSet_insert_second upd ins)
qed

theorem insertion_returns_whether_changed_witness:
  "loc_p4 \<notin> mDefs DU_empty \<and>
   addDef DU_empty loc_p4 = (True, DU_empty\<lparr>mDefs := {loc_p4}\<rparr>) \<and>
   addDef (DU_empty\<lparr>mDefs := {loc_p4}\<rparr>) loc_p4 = (False, DU_empty\<lparr>mDefs := {loc_p4}\<rparr>) \<and>
   addUnknownInst DU_empty (Some call_f) = Inr (True, DU_empty\<lparr>mUnknownInsts := {call_f}\<rparr>) \<and>
   addUnknownInst (DU_empty\<lparr>mUnknownInsts := {call_f}\<rparr>) (Some call_f) =
     Inr (False, DU_empty\<lparr>mUnknownInsts := {call_f}\<rparr>)"
  using insertion_returns_whether_changed [where D = DU_empty and L = loc_p4
      and P = "OtherValue 7" and I = call_f]
  by (simp add: addDef_def addUnknownInst_def LocationSet_insert_def DU_empty_def)

text \<open>
  Claim C8. \<open>addMayDef\<close> on an instruction returns if the instruction may write to
  memory and fails its assertion if not; \<open>addUse\<close> returns if the instruction may
  read from memory and fails its assertion if not; \<open>addExplicitAccess\<close> returns if the
  instruction may read or write memory and fails its assertion if not. An instruction
  that neither reads nor writes memory fails the assertion of all three.
\<close>

theorem instruction_preconditions_are_fatal:
  "(mayWriteToMemory I \<longrightarrow>
      addMayDef_Instruction D (Some I) = Inr (addMayDef D (MemoryLocation_get I))) \<and>
   (\<not> mayWriteToMemory I \<longrightarrow>
      addMayDef_Instruction D (Some I) =
        Inl (AssertionFailed ''Instruction does not modify memory!'')) \<and>
   (mayReadFromMemory I \<longrightarrow>
      addUse_Instruction D (Some I) = Inr (addUse D (MemoryLocation_get I))) \<and>
   (\<not> mayReadFromMemory I \<longrightarrow>
      addUse_Instruction D (Some I) =
        Inl (AssertionFailed ''Instruction does not read memory!'')) \<and>
   (mayReadOrWriteMemory I \<longrightarrow>
      (\<exists>r. addExplicitAccess_Instruction AST_add D (Some I) = Inr r)) \<and>
   (\<not> mayReadOrWriteMemory I \<longrightarrow>
      addExplicitAccess_Instruction AST_add D (Some I) =
        Inl (AssertionFailed ''Instruction does not read nor write memory!'') \<and>
      (\<exists>e. addMayDef_Instruction D (Some I) = Inl e) \<and>
      (\<exists>e. addUse_Instruction D (Some I) = Inl e))"
  by (auto simp: addMayDef_Instruction_def addUse_Instruction_def
      addExplicitAccess_Instruction_def mayReadOrWriteMemory_def split: prod.splits)

theorem instruction_preconditions_are_fatal_witness:
  "mayWriteToMemory store_p \<and> \<not> mayReadFromMemory store_p \<and> mayReadOrWriteMemory store_p \<and>
   addMayDef_Instruction DU_empty (Some store_p) =
     Inr (True, DU_empty\<lparr>mMayDefs := {MemoryLocation_get store_p}\<rparr>) \<and>
   addUse_Instruction DU_empty (Some store_p) =
     Inl (AssertionFailed ''Instruction does not read memory!'') \<and>
   addExplicitAccess_Instruction AST_unit DU_empty (Some store_p) = Inr (True, DU_empty) \<and>
   \<not> mayReadOrWriteMemory add_i \<and>
   addExplicitAccess_Instruction AST_unit DU_empty (Some add_i) =
     Inl (AssertionFailed ''Instruction does not read nor write memory!'') \<and>
   addMayDef_Instruction DU_empty (Some add_i) =
     Inl (AssertionFailed ''Instruction does not modify memory!'') \<and>
   addUse_Instruction DU_empty (Some add_i) =
     Inl (AssertionFailed ''Instruction does not read memory!'')"
  using instruction_preconditions_are_fatal [where I = store_p and D = DU_empty
      and AST_add = AST_unit]
    instruction_preconditions_are_fatal [where I = add_i and D = DU_empty
      and AST_add = AST_unit]
  by (simp add: addMayDef_Instruction_def addUse_Instruction_def
      addExplicitAccess_Instruction_def mayReadOrWriteMemory_def addMayDef_def
      LocationSet_insert_def AST_unit_def DU_empty_def store_p_def add_i_def)

text \<open>
  Claim C9, as amended. An instruction for which \<^verbatim>\<open>for_each_memory\<close> reports a
  location with write assurance \<open>Must\<close> is a store, or a load, \<^verbatim>\<open>va_arg\<close>,
  \<^verbatim>\<open>atomicrmw\<close> or \<^verbatim>\<open>cmpxchg\<close> that may write to memory, and the location is
  \<^verbatim>\<open>MemoryLocation::get\<close> of the instruction; of these, the stores are the ones that
  pass the assertions of \<^verbatim>\<open>addDef(llvm::Instruction *)\<close>.
\<close>

theorem Must_write_instructions:
  assumes "for_each_memory E I = Inr evs" and "Func J Loc Idx R Must \<in> set evs"
  shows "J = I \<and> Loc = MemoryLocation_get I \<and>
         (getOpcode I = Store \<or>
          getOpcode I \<in> {Load, VAArg, AtomicRMW, AtomicCmpXchg} \<and> mayWriteToMemory I) \<and>
         ((\<exists>r. addDef_Instruction D (Some I) = Inr r) = (getOpcode I = Store))"
proof -
  have "(\<exists>r. addDef_Instruction D (Some I) = Inr r) = (getOpcode I = Store)"
    by (simp add: addDef_Instruction_def)
  with for_each_memory_Func_event [OF assms] show ?thesis
    by (auto split: if_splits)
qed

theorem Must_write_instructions_witness:
  "for_each_memory Env_ex store_p = Inr [Func store_p (MemoryLocation_get store_p) 1 No Must] \<and>
   getOpcode store_p = Store \<and>
   addDef_Instruction DU_empty (Some store_p) =
     Inr (True, DU_empty\<lparr>mDefs := {MemoryLocation_get store_p}\<rparr>)"
  using Must_write_instructions [where E = Env_ex and I = store_p and J = store_p
      and Loc = "MemoryLocation_get store_p" and Idx = 1 and R = No and D = DU_empty
      and evs = "[Func store_p (MemoryLocation_get store_p) 1 No Must]"]
  by (simp add: for_each_memory_def storeCase_def getOperand_def isValidPtr_def Let_def
      addDef_Instruction_def addDef_def LocationSet_insert_def store_p_def Env_ex_def
      DU_empty_def)

text \<open>
  The claim as stated fails on an \<^verbatim>\<open>atomicrmw\<close>: it is not a store, its location is
  reported with write assurance \<open>Must\<close>, and \<^verbatim>\<open>addDef(llvm::Instruction *)\<close> fails
  its assertion on it.
\<close>

theorem atomicrmw_reports_Must_write:
  "getOpcode atomicrmw_p \<noteq> Store \<and>
   for_each_memory Env_ex atomicrmw_p =
     Inr [Func atomicrmw_p (MemoryLocation_get atomicrmw_p) 0 Must Must] \<and>
   addDef_Instruction DU_empty (Some atomicrmw_p) =
     Inl (AssertionFailed ''Only store instructions produce must defined locations!'')"
  by (simp add: for_each_memory_def loadLike_def getOperand_def isValidPtr_def Let_def
      addDef_Instruction_def atomicrmw_p_def Env_ex_def)

text \<open>
  Claim C10. \<open>UnknownFunc\<close> is never invoked with \<open>Must\<close>: in the run of one
  instruction, and in the traversal of a range of instructions, each of its two
  assurances is \<open>No\<close> or \<open>May\<close>, and the instruction it carries is the one the run
  is on, or one of the range.
\<close>

theorem UnknownFunc_never_Must:
  "(for_each_memory E I = Inr evs \<and> UnknownFunc J R W \<in> set evs \<longrightarrow>
      J = I \<and> R \<in> {No, May} \<and> W \<in> {No, May}) \<and>
   (for_each_memory_range E Is = Inr evs' \<and> UnknownFunc J' R' W' \<in> set evs' \<longrightarrow>
      J' \<in> set Is \<and> R' \<in> {No, May} \<and> W' \<in> {No, May})"
proof -
  have one: "J = I \<and> R \<in> {No, May} \<and> W \<in> {No, May}"
    if "for_each_memory E I = Inr evs" and "UnknownFunc J R W \<in> set evs"
  proof -
    from for_each_memory_unknown_event [OF that]
    show ?thesis by (cases R; cases W; simp)
  qed
  have all: "J' \<in> set Is \<and> R' \<in> {No, May} \<and> W' \<in> {No, May}"
    if "for_each_memory_range E Is = Inr evs'" and "UnknownFunc J' R' W' \<in> set evs'"
  proof -
    from for_each_memory_range_events [OF that] obtain K evsK where
      K: "K \<in> set Is" "for_each_memory E K = Inr evsK" "UnknownFunc J' R' W' \<in> set evsK"
      by blast
    from for_each_memory_unknown_event [OF K(2,3)] K(1)
    show ?thesis by (cases R'; cases W'; simp)
  qed
  from one all show ?thesis by blast
qed

theorem UnknownFunc_never_Must_witness:
  "for_each_memory Env_ex fence_i = Inr [UnknownFunc fence_i May May] \<and>
   for_each_memory_range Env_ex [call_f, fence_i] =
     Inr [Func call_f (getForArgument Env_ex call_f 1) 1 May May,
          UnknownFunc call_f May May, UnknownFunc fence_i May May]"
  using UnknownFunc_never_Must [where E = Env_ex and I = fence_i and J = fence_i
      and R = May and W = May and evs = "[UnknownFunc fence_i May May]"
      and Is = "[call_f, fence_i]" and J' = call_f and R' = May and W' = May
      and evs' = "[Func call_f (getForArgument Env_ex call_f 1) 1 May May,
                   UnknownFunc call_f May May, UnknownFunc fence_i May May]"]
  by (simp add: Env_ex_def mayReadOrWriteMemory_def
      for_each_memory_def call_f_def fence_i_def
      traverseActualParams_def knownParams_def isValidPtr_def defaultCase_def Let_def)

end
